theory Spec2Isabelle
  imports Complex_Main "HOL-Library.Code_Target_Numeral"
begin

section \<open>Python values and exceptions\<close>

text \<open>
  The module \<^verbatim>\<open>fmu/ensemble/realization.py\<close> is embedded function by function.
  An exception is a value of \<open>pyerror\<close>; a call that may raise returns
  \<open>pyerror + 'a\<close> with \<open>Inl\<close> for the exception.
\<close>

datatype pyerror = ValueError | IndexError | TypeError | OverflowError | AttributeError | IOError

text \<open>
  A Python \<^verbatim>\<open>float\<close> is a double: a finite number, an infinity or a NaN. A finite
  double is represented by the rational number it denotes. Every finite double is such a
  rational, not every rational is a double; a statement about all of \<open>Finite q\<close> covers
  the doubles among them. The two zeros of a double are equal in Python and are the one
  value \<open>Finite 0\<close> here.
\<close>

datatype pyfloat = Finite rat | PosInf | NegInf | NaN

text \<open>The scalars that \<^verbatim>\<open>parse_number\<close> is given and returns: int, float or str.\<close>

datatype pyval = PyInt int | PyFloat pyfloat | PyStr string

section \<open>The builtins \<^verbatim>\<open>int(str)\<close> and \<^verbatim>\<open>float(str)\<close>\<close>

text \<open>
  The two builtins as CPython 3.11 has them, with its default settings. A string is the
  list of its code points, and the model covers the code points below 256: a \<open>char\<close> is
  one code point. \<open>None\<close> stands for the \<^verbatim>\<open>ValueError\<close> of the builtin.

  Both builtins strip white space on both sides and then read an optional sign and the
  digits, where single underscores may stand between digits. The white space they strip
  is the characters 9 to 13 and 32, and the two white-space characters above ASCII, 133
  and 160, which are turned first into a space; the separators 28 to 31 are not stripped.
  Below 256 the only decimal digits are \<^verbatim>\<open>0\<close> to \<^verbatim>\<open>9\<close>.
\<close>

definition isspace :: "char \<Rightarrow> bool" where
  "isspace c =
     (let n = (of_char c :: nat) in (9 \<le> n \<and> n \<le> 13) \<or> n = 32 \<or> n = 133 \<or> n = 160)"

definition isdigit :: "char \<Rightarrow> bool" where
  "isdigit c = (let n = (of_char c :: nat) in 48 \<le> n \<and> n \<le> 57)"

definition lower :: "char \<Rightarrow> char" where
  "lower c = (let n = (of_char c :: nat) in if 65 \<le> n \<and> n \<le> 90 then char_of (n + 32) else c)"

definition strip :: "string \<Rightarrow> string" where
  "strip s = rev (dropWhile isspace (rev (dropWhile isspace s)))"

definition digits_val :: "string \<Rightarrow> nat" where
  "digits_val ds = fold (\<lambda>c n. 10 * n + (of_char c - 48)) ds 0"

text \<open>
  \<open>digitpart_tail\<close> continues a digit part after its first digit:
  \<^verbatim>\<open>(["_"] digit)*\<close>. It returns the digits read and the rest of the string.
\<close>

fun digitpart_tail :: "string \<Rightarrow> string \<times> string" where
  "digitpart_tail [] = ([], [])"
| "digitpart_tail [c] = (if isdigit c then ([c], []) else ([], [c]))"
| "digitpart_tail (c # d # cs) =
     (if isdigit c then (case digitpart_tail (d # cs) of (ds, r) \<Rightarrow> (c # ds, r))
      else if c = CHR ''_'' \<and> isdigit d then (case digitpart_tail cs of (ds, r) \<Rightarrow> (d # ds, r))
      else ([], c # d # cs))"

definition digitpart :: "string \<Rightarrow> (string \<times> string) option" where
  "digitpart s =
     (case s of
        [] \<Rightarrow> None
      | c # cs \<Rightarrow>
          if isdigit c then (case digitpart_tail cs of (ds, r) \<Rightarrow> Some (c # ds, r)) else None)"

text \<open>An optional sign: whether it is a minus, and the rest.\<close>

definition take_sign :: "string \<Rightarrow> bool \<times> string" where
  "take_sign s =
     (case s of
        [] \<Rightarrow> (False, [])
      | c # cs \<Rightarrow>
          if c = CHR ''-'' then (True, cs) else if c = CHR ''+'' then (False, cs) else (False, s))"

text \<open>
  \<^verbatim>\<open>int(s)\<close>. A literal of more than 4300 digits is refused
  (\<^verbatim>\<open>sys.int_max_str_digits\<close>, leading zeros counted, underscores not).
\<close>

definition int_max_str_digits :: nat where
  "int_max_str_digits = 4300"

definition py_int :: "string \<Rightarrow> int option" where
  "py_int s =
     (case take_sign (strip s) of
        (neg, u) \<Rightarrow>
          (case digitpart u of
             None \<Rightarrow> None
           | Some (ds, r) \<Rightarrow>
               if r = [] \<and> length ds \<le> int_max_str_digits
               then Some (if neg then - int (digits_val ds) else int (digits_val ds))
               else None))"

text \<open>
  The mantissa of a float literal: \<^verbatim>\<open>[digitpart] "." digitpart | digitpart ["."]\<close>,
  returned as the digits before the point, the digits after it, and the rest.
\<close>

definition mantissa :: "string \<Rightarrow> (string \<times> string \<times> string) option" where
  "mantissa u =
     (case digitpart u of
        Some (ip, r) \<Rightarrow>
          (case r of
             [] \<Rightarrow> Some (ip, [], [])
           | c # r' \<Rightarrow>
               if c = CHR ''.'' then
                 (case digitpart r' of
                    Some (fp, r'') \<Rightarrow> Some (ip, fp, r'')
                  | None \<Rightarrow> Some (ip, [], r'))
               else Some (ip, [], r))
      | None \<Rightarrow>
          (case u of
             [] \<Rightarrow> None
           | c # r' \<Rightarrow>
               if c = CHR ''.'' then
                 (case digitpart r' of
                    Some (fp, r'') \<Rightarrow> Some ([], fp, r'')
                  | None \<Rightarrow> None)
               else None))"

text \<open>The exponent: nothing, or \<^verbatim>\<open>("e" | "E") [sign] digitpart\<close> up to the end.\<close>

definition exponent :: "string \<Rightarrow> int option" where
  "exponent r =
     (case r of
        [] \<Rightarrow> Some 0
      | c # r' \<Rightarrow>
          if lower c = CHR ''e'' then
            (case take_sign r' of
               (neg, e) \<Rightarrow>
                 (case digitpart e of
                    None \<Rightarrow> None
                  | Some (ds, r'') \<Rightarrow>
                      if r'' = [] then Some (if neg then - int (digits_val ds) else int (digits_val ds))
                      else None))
          else None)"

text \<open>
  The double nearest to the positive rational \<open>num / den\<close>, as \<^verbatim>\<open>float\<close> rounds a decimal
  literal (IEEE 754 binary64, round to nearest, ties to even). \<open>bits n\<close> is the length of
  \<open>n\<close> in binary, and \<open>floor_log2 num den\<close> the exponent \<open>e\<close> with
  \<open>2 ^ e \<le> num / den < 2 ^ (e + 1)\<close>. A double has 53 significant bits and no exponent
  below \<open>- 1022\<close>, so it is a multiple of \<open>2 ^ (e - 52)\<close> with \<open>e\<close> not below \<open>- 1022\<close>:
  what is too small becomes a subnormal number or zero. What rounds to \<open>2 ^ 1024\<close> or
  more is an infinity.
\<close>

fun bits :: "nat \<Rightarrow> nat" where
  "bits n = (if n = 0 then 0 else Suc (bits (n div 2)))"

definition floor_log2 :: "nat \<Rightarrow> nat \<Rightarrow> int" where
  "floor_log2 num den =
     (let k = int (bits num) - int (bits den)
      in if (if 0 \<le> k then den * 2 ^ nat k \<le> num else den \<le> num * 2 ^ nat (- k))
         then k else k - 1)"

definition round_half_even :: "nat \<Rightarrow> nat \<Rightarrow> nat" where
  "round_half_even p q =
     (let f = p div q; r = p mod q
      in if 2 * r < q then f
         else if q < 2 * r then f + 1
         else if even f then f else f + 1)"

definition pow2 :: "int \<Rightarrow> rat" where
  "pow2 e = (if 0 \<le> e then 2 ^ nat e else 1 / 2 ^ nat (- e))"

definition round_double :: "nat \<Rightarrow> nat \<Rightarrow> pyfloat" where
  "round_double num den =
     (if num = 0 then Finite 0
      else
        (let e = max (floor_log2 num den) (- 1022);
             n = (if 52 \<le> e then round_half_even num (den * 2 ^ nat (e - 52))
                  else round_half_even (num * 2 ^ nat (52 - e)) den);
             r = of_nat n * pow2 (e - 52)
         in if 2 ^ 1024 \<le> r then PosInf else Finite r))"

definition float_neg :: "pyfloat \<Rightarrow> pyfloat" where
  "float_neg x =
     (case x of Finite q \<Rightarrow> Finite (- q) | PosInf \<Rightarrow> NegInf | NegInf \<Rightarrow> PosInf | NaN \<Rightarrow> NaN)"

text \<open>
  \<^verbatim>\<open>float(s)\<close>: an infinity or a NaN by name, in any case of the letters, or a decimal
  literal with the digits \<open>ip\<close> before the point, the digits \<open>fp\<close> after it and the
  exponent \<open>e\<close>, which denotes the digits as a number times \<open>10 ^ (e - length fp)\<close>.
\<close>

definition py_float :: "string \<Rightarrow> pyfloat option" where
  "py_float s =
     (case take_sign (strip s) of
        (neg, u) \<Rightarrow>
          if map lower u = ''inf'' \<or> map lower u = ''infinity'' then Some (if neg then NegInf else PosInf)
          else if map lower u = ''nan'' then Some NaN
          else
            (case mantissa u of
               None \<Rightarrow> None
             | Some (ip, fp, r) \<Rightarrow>
                 (case exponent r of
                    None \<Rightarrow> None
                  | Some e \<Rightarrow>
                      (let m = digits_val (ip @ fp);
                           d = e - int (length fp);
                           x = (if 0 \<le> d then round_double (m * 10 ^ nat d) 1
                                else round_double m (10 ^ nat (- d)))
                       in Some (if neg then float_neg x else x)))))"

section \<open>Numeric coercion: \<^verbatim>\<open>parse_number\<close>\<close>

text \<open>
  \<^verbatim>\<open>int(value)\<close> on a float truncates towards zero; it raises \<^verbatim>\<open>ValueError\<close> on a NaN
  and \<^verbatim>\<open>OverflowError\<close> on an infinity.
\<close>

definition int_of_float :: "pyfloat \<Rightarrow> pyerror + int" where
  "int_of_float f =
     (case f of
        Finite q \<Rightarrow> Inr (if 0 \<le> q then \<lfloor>q\<rfloor> else \<lceil>q\<rceil>)
      | PosInf \<Rightarrow> Inl OverflowError
      | NegInf \<Rightarrow> Inl OverflowError
      | NaN \<Rightarrow> Inl ValueError)"

text \<open>
  \<^verbatim>\<open>
  def parse_number(value):
      if isinstance(value, int):
          return value
      elif isinstance(value, float):
          if int(value) == value:
              return int(value)
          return value
      else:
          try:
              return int(value)
          except ValueError:
              try:
                  return float(value)
              except ValueError:
                  return value
  \<close>
\<close>

definition parse_number :: "pyval \<Rightarrow> pyerror + pyval" where
  "parse_number val =
     (case val of
        PyInt i \<Rightarrow> Inr (PyInt i)
      | PyFloat f \<Rightarrow>
          (case int_of_float f of
             Inl e \<Rightarrow> Inl e
           | Inr i \<Rightarrow> if Finite (of_int i) = f then Inr (PyInt i) else Inr (PyFloat f))
      | PyStr s \<Rightarrow>
          (case py_int s of
             Some i \<Rightarrow> Inr (PyInt i)
           | None \<Rightarrow>
               (case py_float s of
                  Some f \<Rightarrow> Inr (PyFloat f)
                | None \<Rightarrow> Inr (PyStr s))))"

section \<open>The world outside the module\<close>

text \<open>
  The module reaches the file system through \<^verbatim>\<open>os.path\<close> and \<^verbatim>\<open>glob\<close>, reads
  \<^verbatim>\<open>parameters.txt\<close> through \<^verbatim>\<open>pandas.read_table\<close> and decodes the summary file through
  \<^verbatim>\<open>ert.ecl.EclSum\<close>. None of these is code of the repository: they are the fields of an
  environment, which every operation takes as an argument. The environment of one call
  need not be that of the next (a file may appear between two calls).

  \<^item> \<open>read_table\<close> is
    \<^verbatim>\<open>pd.read_table(path, sep=r'\s+', index_col=0, dtype=str, header=None)[1].to_dict()\<close>:
    the dictionary as its items in iteration order, or the exception of the read. With
    \<^verbatim>\<open>dtype=str\<close> a value is a string, or the float NaN where the line has no value.
  \<^item> \<open>EclSum\<close> is the constructor of the decoder: a handle of the opaque type \<open>'h\<close>, or
    its exception. \<open>keys\<close>, \<open>numpy_vector\<close>, \<open>get_values\<close> and \<open>get_dates\<close> are the
    methods of a handle (the last three called with \<^verbatim>\<open>report_only=True\<close>);
    \<open>has_numpy_vector\<close> is \<^verbatim>\<open>'numpy_vector' in dir(handle)\<close>. A vector is a value of the
    opaque type \<open>'v\<close>, a report date one of \<open>'d\<close>.
\<close>

record ('h, 'v, 'd) env =
  abspath :: "string \<Rightarrow> string"
  path_exists :: "string \<Rightarrow> bool"
  glob_glob :: "string \<Rightarrow> string list"
  read_table :: "string \<Rightarrow> pyerror + (string \<times> pyval) list"
  EclSum :: "string \<Rightarrow> pyerror + 'h"
  keys :: "'h \<Rightarrow> string option \<Rightarrow> string list"
  has_numpy_vector :: "'h \<Rightarrow> bool"
  numpy_vector :: "'h \<Rightarrow> string \<Rightarrow> 'v"
  get_values :: "'h \<Rightarrow> string \<Rightarrow> 'v"
  get_dates :: "'h \<Rightarrow> 'd list"

text \<open>
  What an operation does to the world is the list of its calls, in order: a test for a
  path, a glob, a read of a table, a call of the decoder's constructor, a warning logged.
\<close>

datatype io_event =
  PathExists string | GlobCall string | ReadTableCall string | EclSumCall string | LoggerWarn string

text \<open>\<^verbatim>\<open>os.path.join\<close> of two components (\<^verbatim>\<open>posixpath\<close>).\<close>

definition startswith_slash :: "string \<Rightarrow> bool" where
  "startswith_slash s = (case s of [] \<Rightarrow> False | c # _ \<Rightarrow> c = CHR ''/'')"

definition endswith_slash :: "string \<Rightarrow> bool" where
  "endswith_slash s = (case rev s of [] \<Rightarrow> False | c # _ \<Rightarrow> c = CHR ''/'')"

definition path_join :: "string \<Rightarrow> string \<Rightarrow> string" where
  "path_join a b =
     (if startswith_slash b then b
      else if a = [] \<or> endswith_slash a then a @ b
      else a @ ''/'' @ b)"

section \<open>The index pattern\<close>

text \<open>
  \<open>realidxregexp\<close> is a compiled regular expression. It is used in one way only,
  \<^verbatim>\<open>re.match(realidxregexp, abspath)\<close>, so it is modelled by what that call returns:
  \<open>None\<close> when there is no match, else the match object, which is the list of its groups
  1, 2, ... (a group that took no part in the match is \<open>None\<close>).
\<close>

type_synonym rematch = "string option list"

text \<open>
  \<^verbatim>\<open>int(realidxmatch.group(1))\<close>: \<^verbatim>\<open>group(1)\<close> raises \<^verbatim>\<open>IndexError\<close> when the pattern has
  no group, \<^verbatim>\<open>int(None)\<close> raises \<^verbatim>\<open>TypeError\<close>, and \<^verbatim>\<open>int\<close> raises \<^verbatim>\<open>ValueError\<close> on a
  string that is no integer literal.
\<close>

definition match_index :: "rematch \<Rightarrow> pyerror + int" where
  "match_index m =
     (case m of
        [] \<Rightarrow> Inl IndexError
      | g # _ \<Rightarrow>
          (case g of
             None \<Rightarrow> Inl TypeError
           | Some s \<Rightarrow> (case py_int s of None \<Rightarrow> Inl ValueError | Some i \<Rightarrow> Inr i)))"

text \<open>
  The default pattern, \<^verbatim>\<open>re.compile(r'.*realization-(\d+)')\<close>. \<open>realization_here\<close> matches
  \<^verbatim>\<open>realization-(\d+)\<close> at the start of a string and returns the group. \<^verbatim>\<open>.*\<close> is greedy
  and does not cross a newline, so \<open>realization_last\<close> prefers the rightmost position
  that no newline precedes.
\<close>

definition realization_here :: "string \<Rightarrow> string option" where
  "realization_here s =
     (if take 12 s = ''realization-'' then
        (case takeWhile isdigit (drop 12 s) of [] \<Rightarrow> None | d # ds \<Rightarrow> Some (d # ds))
      else None)"

fun realization_last :: "string \<Rightarrow> string option" where
  "realization_last [] = None"
| "realization_last (c # cs) =
     (case (if c = CHR 0x0A then None else realization_last cs) of
        Some g \<Rightarrow> Some g
      | None \<Rightarrow> realization_here (c # cs))"

definition default_realidxregexp :: "string \<Rightarrow> rematch option" where
  "default_realidxregexp s =
     (case realization_last s of None \<Rightarrow> None | Some g \<Rightarrow> Some [Some g])"

text \<open>
  Another pattern with one group, \<^verbatim>\<open>re.compile(r'(.*)')\<close>: it matches every string, and
  its group is the string up to the first newline.
\<close>

definition any_line_regexp :: "string \<Rightarrow> rematch option" where
  "any_line_regexp s = Some [Some (takeWhile (\<lambda>c. c \<noteq> CHR 0x0A) s)]"

section \<open>\<^verbatim>\<open>ScratchRealization\<close>\<close>

text \<open>
  A row of the \<^verbatim>\<open>files\<close> dataframe. The constructor fills three of the four columns;
  \<^verbatim>\<open>BASENAME\<close> stays empty (NaN) in the rows it appends.
\<close>

record file_row =
  FULLPATH :: string
  FILETYPE :: string
  LOCALPATH :: string
  BASENAME :: "string option"

text \<open>
  The attributes of an instance: \<^verbatim>\<open>_origpath\<close>, \<^verbatim>\<open>files\<close>, \<^verbatim>\<open>_eclsum\<close> and \<^verbatim>\<open>index\<close>.
  \<^verbatim>\<open>_eclsum\<close> is \<open>None\<close> or a handle. The handle is an object of the decoder's class, which
  is not part of the repository; the tests \<^verbatim>\<open>if self._eclsum\<close> and
  \<^verbatim>\<open>if not self._eclsum\<close> are read as the tests whether the attribute is a handle.
\<close>

record 'h ScratchRealization =
  origpath :: string
  files :: "file_row list"
  eclsum :: "'h option"
  index :: int

definition new_row :: "string \<Rightarrow> string \<Rightarrow> string \<Rightarrow> file_row" where
  "new_row localpath filetype fullpath =
     \<lparr>FULLPATH = fullpath, FILETYPE = filetype, LOCALPATH = localpath, BASENAME = None\<rparr>"

text \<open>
  \<^verbatim>\<open>ScratchRealization.__init__(self, path, realidxregexp)\<close>. The result is the exception
  raised, or the instance; with it, the calls made.
\<close>

definition ScratchRealization_init ::
  "('h, 'v, 'd) env \<Rightarrow> string \<Rightarrow> (string \<Rightarrow> rematch option) \<Rightarrow>
     (pyerror + 'h ScratchRealization) \<times> io_event list" where
  "ScratchRealization_init env path realidxregexp =
     (let ap = abspath env path;
          status = path_join ap ''STATUS'';
          jobs = path_join ap ''jobs.json'';
          params = path_join ap ''parameters.txt''
      in case realidxregexp ap of
           None \<Rightarrow> (Inl ValueError, [LoggerWarn ap])
         | Some realidxmatch \<Rightarrow>
             (case match_index realidxmatch of
                Inl e \<Rightarrow> (Inl e, [])
              | Inr idx \<Rightarrow>
                  if path_exists env status then
                    (let files1 = [new_row ''STATUS'' ''STATUS'' status];
                         files2 = (if path_exists env jobs
                                   then files1 @ [new_row ''jobs.json'' ''json'' jobs] else files1);
                         files3 = (if path_exists env params
                                   then files2 @ [new_row ''parameters.txt'' ''txt'' params]
                                   else files2)
                     in (Inr \<lparr>origpath = path, files = files3, eclsum = None, index = idx\<rparr>,
                         [PathExists status, PathExists jobs, PathExists params]))
                  else (Inl ValueError, [PathExists status, LoggerWarn ap])))"

text \<open>
  \<^verbatim>\<open>get_parameters(self, convert_numeric)\<close>. The loop over the keys of the dictionary
  stops at the first value on which \<^verbatim>\<open>parse_number\<close> raises. Every operation on an
  instance returns its result, the instance after the call and the calls made.
\<close>

fun convert_params :: "(string \<times> pyval) list \<Rightarrow> pyerror + (string \<times> pyval) list" where
  "convert_params [] = Inr []"
| "convert_params ((k, v) # kvs) =
     (case parse_number v of
        Inl e \<Rightarrow> Inl e
      | Inr v' \<Rightarrow>
          (case convert_params kvs of Inl e \<Rightarrow> Inl e | Inr r \<Rightarrow> Inr ((k, v') # r)))"

definition get_parameters ::
  "('h, 'v, 'd) env \<Rightarrow> 'h ScratchRealization \<Rightarrow> bool \<Rightarrow>
     (pyerror + (string \<times> pyval) list) \<times> 'h ScratchRealization \<times> io_event list" where
  "get_parameters env self convert_numeric =
     (case filter (\<lambda>r. LOCALPATH r = ''parameters.txt'') (files self) of
        [] \<Rightarrow> (Inl IndexError, self, [])
      | paramfile # _ \<Rightarrow>
          (case read_table env (FULLPATH paramfile) of
             Inl e \<Rightarrow> (Inl e, self, [ReadTableCall (FULLPATH paramfile)])
           | Inr params \<Rightarrow>
               (if convert_numeric then convert_params params else Inr params,
                self, [ReadTableCall (FULLPATH paramfile)])))"

text \<open>
  Lines 153 to 160 of \<^verbatim>\<open>get_eclsum\<close>: the file name of the summary file. It is the path of
  the one row of type \<^verbatim>\<open>UNSMRY\<close> when there is exactly one, and else the first result of
  the glob, where \<^verbatim>\<open>glob.glob(unsmry_fileguess)[0]\<close> raises \<^verbatim>\<open>IndexError\<close> on no result.
\<close>

definition unsmry_fileguess :: "'h ScratchRealization \<Rightarrow> string" where
  "unsmry_fileguess self = path_join (path_join (origpath self) ''eclipse/model'') ''*.UNSMRY''"

definition unsmry_filename ::
  "('h, 'v, 'd) env \<Rightarrow> 'h ScratchRealization \<Rightarrow> (pyerror + string) \<times> io_event list" where
  "unsmry_filename env self =
     (case filter (\<lambda>r. FILETYPE r = ''UNSMRY'') (files self) of
        [unsmry_file_row] \<Rightarrow> (Inr (FULLPATH unsmry_file_row), [])
      | _ \<Rightarrow>
          (case glob_glob env (unsmry_fileguess self) of
             [] \<Rightarrow> (Inl IndexError, [GlobCall (unsmry_fileguess self)])
           | f # _ \<Rightarrow> (Inr f, [GlobCall (unsmry_fileguess self)])))"

text \<open>\<^verbatim>\<open>get_eclsum(self)\<close>.\<close>

definition get_eclsum ::
  "('h, 'v, 'd) env \<Rightarrow> 'h ScratchRealization \<Rightarrow>
     (pyerror + 'h option) \<times> 'h ScratchRealization \<times> io_event list" where
  "get_eclsum env self =
     (case eclsum self of
        Some h \<Rightarrow> (Inr (Some h), self, [])
      | None \<Rightarrow>
          (case unsmry_filename env self of
             (Inl e, ev) \<Rightarrow> (Inl e, self, ev)
           | (Inr f, ev) \<Rightarrow>
               if path_exists env f then
                 (case EclSum env f of
                    Inl e \<Rightarrow> (Inl e, self, ev @ [PathExists f, EclSumCall f])
                  | Inr h \<Rightarrow>
                      (Inr (Some h), self\<lparr>eclsum := Some h\<rparr>, ev @ [PathExists f, EclSumCall f]))
               else (Inr None, self, ev @ [PathExists f])))"

text \<open>
  The argument \<^verbatim>\<open>props_wildcard\<close> of \<^verbatim>\<open>get_smryvalues\<close>: \<^verbatim>\<open>None\<close>, a string or a list of
  strings. \<open>wildcard_list\<close> is the list the loop runs over (lines 184 to 187): \<^verbatim>\<open>[None]\<close>
  for an argument that is false (\<^verbatim>\<open>None\<close>, an empty string, an empty list).
\<close>

datatype wildcard_arg = NoWildcard | OneWildcard string | Wildcards "string list"

definition wildcard_list :: "wildcard_arg \<Rightarrow> string option list" where
  "wildcard_list props_wildcard =
     (case props_wildcard of
        NoWildcard \<Rightarrow> [None]
      | OneWildcard p \<Rightarrow> (if p = [] then [None] else [Some p])
      | Wildcards ps \<Rightarrow> (if ps = [] then [None] else map Some ps))"

text \<open>
  A dataframe: its columns by name, and its index. \<^verbatim>\<open>pd.DataFrame()\<close> has neither.
\<close>

record ('v, 'd) dataframe =
  df_data :: "string \<rightharpoonup> 'v"
  df_index :: "'d list"

definition DataFrame_empty :: "('v, 'd) dataframe" where
  "DataFrame_empty = \<lparr>df_data = Map.empty, df_index = []\<rparr>"

text \<open>Lines 188 to 198 of \<^verbatim>\<open>get_smryvalues\<close>, on the handle \<open>h\<close>.\<close>

definition smry_props :: "('h, 'v, 'd) env \<Rightarrow> 'h \<Rightarrow> string option list \<Rightarrow> string set" where
  "smry_props env h props_wildcard =
     fold (\<lambda>prop props. props \<union> set (keys env h prop)) props_wildcard {}"

definition smry_dataframe ::
  "('h, 'v, 'd) env \<Rightarrow> 'h \<Rightarrow> wildcard_arg \<Rightarrow> ('v, 'd) dataframe" where
  "smry_dataframe env h props_wildcard =
     (let props = smry_props env h (wildcard_list props_wildcard);
          vector = (if has_numpy_vector env h then numpy_vector env h else get_values env h)
      in \<lparr>df_data = (\<lambda>prop. if prop \<in> props then Some (vector prop) else None),
          df_index = get_dates env h\<rparr>)"

text \<open>\<^verbatim>\<open>get_smryvalues(self, props_wildcard)\<close>.\<close>

definition get_smryvalues ::
  "('h, 'v, 'd) env \<Rightarrow> 'h ScratchRealization \<Rightarrow> wildcard_arg \<Rightarrow>
     (pyerror + ('v, 'd) dataframe) \<times> 'h ScratchRealization \<times> io_event list" where
  "get_smryvalues env self props_wildcard =
     (case eclsum self of
        Some h \<Rightarrow> (Inr (smry_dataframe env h props_wildcard), self, [])
      | None \<Rightarrow>
          (case get_eclsum env self of
             (Inl e, self', ev) \<Rightarrow> (Inl e, self', ev)
           | (Inr _, self', ev) \<Rightarrow>
               (case eclsum self' of
                  None \<Rightarrow> (Inr DataFrame_empty, self', ev)
                | Some h \<Rightarrow> (Inr (smry_dataframe env h props_wildcard), self', ev))))"

text \<open>
  A caller's view of an instance: a sequence of calls of its accessors, each in the world
  of its moment. \<open>do_call\<close> keeps the instance after the call and the calls made, whether
  the accessor returned or raised; \<open>run\<close> does one call after the other.
  \<open>decoder_calls\<close> counts the calls of the decoder's constructor.
\<close>

datatype call = Call_get_eclsum | Call_get_smryvalues wildcard_arg | Call_get_parameters bool

definition do_call ::
  "('h, 'v, 'd) env \<Rightarrow> call \<Rightarrow> 'h ScratchRealization \<Rightarrow> 'h ScratchRealization \<times> io_event list" where
  "do_call env c self =
     (case c of
        Call_get_eclsum \<Rightarrow> snd (get_eclsum env self)
      | Call_get_smryvalues w \<Rightarrow> snd (get_smryvalues env self w)
      | Call_get_parameters b \<Rightarrow> snd (get_parameters env self b))"

fun run ::
  "(('h, 'v, 'd) env \<times> call) list \<Rightarrow> 'h ScratchRealization \<Rightarrow>
     'h ScratchRealization \<times> io_event list" where
  "run [] self = (self, [])"
| "run ((env, c) # cs) self =
     (case do_call env c self of
        (self', ev) \<Rightarrow> (case run cs self' of (self'', ev') \<Rightarrow> (self'', ev @ ev')))"

definition decoder_calls :: "io_event list \<Rightarrow> nat" where
  "decoder_calls ev = length (filter (\<lambda>e. case e of EclSumCall _ \<Rightarrow> True | _ \<Rightarrow> False) ev)"

section \<open>\<^verbatim>\<open>VirtualRealization\<close>\<close>

text \<open>
  The class has one method, \<^verbatim>\<open>__init__(self, path=None, description=None)\<close>, which sets
  one attribute. An instance is modelled by its attribute dictionary, so that the
  attributes it does not have can be spoken of; \<open>getattr\<close> reads a data attribute and
  raises \<^verbatim>\<open>AttributeError\<close> when there is none of that name.
\<close>

type_synonym pyobject = "string \<rightharpoonup> pyval"

definition VirtualRealization_init ::
  "string option \<Rightarrow> string option \<Rightarrow> pyobject \<times> io_event list" where
  "VirtualRealization_init path description =
     (let self = [''_description'' \<mapsto> PyStr []]
      in (case description of
            None \<Rightarrow> self
          | Some d \<Rightarrow> if d = [] then self else self(''_description'' \<mapsto> PyStr d),
          []))"

definition getattr :: "pyobject \<Rightarrow> string \<Rightarrow> pyerror + pyval" where
  "getattr obj name = (case obj name of None \<Rightarrow> Inl AttributeError | Some v \<Rightarrow> Inr v)"

section \<open>An example world\<close>

text \<open>
  Modelled from the spec: the decoder enumerates its vector names "optionally filtered
  by a wildcard pattern"; the decoder is no code of the repository. \<open>wildcard_match\<close> is
  such a filter, with \<^verbatim>\<open>*\<close> for any run of characters and \<^verbatim>\<open>?\<close> for one. It is used by
  the example world only, never by the model of the module.
\<close>

fun wildcard_match :: "string \<Rightarrow> string \<Rightarrow> bool" where
  "wildcard_match [] s = (s = [])"
| "wildcard_match (p # ps) s =
     (if p = CHR ''*'' then
        (wildcard_match ps s \<or> (case s of [] \<Rightarrow> False | _ # cs \<Rightarrow> wildcard_match (p # ps) cs))
      else (case s of [] \<Rightarrow> False | c # cs \<Rightarrow> (p = CHR ''?'' \<or> p = c) \<and> wildcard_match ps cs))"

text \<open>
  A world whose existing paths are \<open>present\<close>, with absolute paths only
  (\<^verbatim>\<open>abspath\<close> changes nothing). A glob returns the present paths that match. The decoder
  opens every file; its handle is the file name, with the vectors \<^verbatim>\<open>FOPT\<close>, \<^verbatim>\<open>FOPR\<close> and
  \<^verbatim>\<open>WOPR\<close> over two report dates. Every parameters file holds the lines \<^verbatim>\<open>A 1\<close>,
  \<^verbatim>\<open>B 2.5\<close> and \<^verbatim>\<open>C hello\<close>.
\<close>

definition example_env :: "string list \<Rightarrow> (string, int list, nat) env" where
  "example_env present =
     \<lparr>abspath = (\<lambda>p. p),
      path_exists = (\<lambda>p. p \<in> set present),
      glob_glob = (\<lambda>pat. filter (wildcard_match pat) present),
      read_table = (\<lambda>p. Inr [(''A'', PyStr ''1''), (''B'', PyStr ''2.5''), (''C'', PyStr ''hello'')]),
      EclSum = (\<lambda>f. Inr f),
      keys = (\<lambda>h pat. filter (\<lambda>k. case pat of None \<Rightarrow> True | Some p \<Rightarrow> wildcard_match p k)
                [''FOPT'', ''FOPR'', ''WOPR'']),
      has_numpy_vector = (\<lambda>h. True),
      numpy_vector = (\<lambda>h k. [0, 1]),
      get_values = (\<lambda>h k. [0, 1]),
      get_dates = (\<lambda>h. [0, 1])\<rparr>"

text \<open>
  Three directories: \<open>bare_dir\<close> holds the status file only, \<open>full_dir\<close> also the
  parameters and a summary file, and \<open>odd_dir\<close> is a directory of another name.
\<close>

definition bare_dir :: "string list" where
  "bare_dir = [''/scratch/realization-0/STATUS'']"

definition full_dir :: "string list" where
  "full_dir =
     [''/scratch/realization-7/STATUS'',
      ''/scratch/realization-7/parameters.txt'',
      ''/scratch/realization-7/eclipse/model/R.UNSMRY'']"

definition odd_dir :: "string list" where
  "odd_dir = [''/scratch/run-a/STATUS'']"

text \<open>The instances the constructor makes of \<open>bare_dir\<close> and \<open>full_dir\<close>.\<close>

definition bare_real :: "string ScratchRealization" where
  "bare_real =
     \<lparr>origpath = ''/scratch/realization-0'',
      files = [new_row ''STATUS'' ''STATUS'' ''/scratch/realization-0/STATUS''],
      eclsum = None, index = 0\<rparr>"

definition full_real :: "string ScratchRealization" where
  "full_real =
     \<lparr>origpath = ''/scratch/realization-7'',
      files = [new_row ''STATUS'' ''STATUS'' ''/scratch/realization-7/STATUS'',
               new_row ''parameters.txt'' ''txt'' ''/scratch/realization-7/parameters.txt''],
      eclsum = None, index = 7\<rparr>"

text \<open>
  An instance of \<open>full_dir\<close> in whose registry the summary file has been entered (the
  attribute \<^verbatim>\<open>files\<close> is public).
\<close>

definition stale_real :: "string ScratchRealization" where
  "stale_real =
     full_real\<lparr>files := files full_real @
       [new_row ''eclipse/model/R.UNSMRY'' ''UNSMRY'' ''/scratch/realization-7/eclipse/model/R.UNSMRY'']\<rparr>"

text \<open>The instance of \<open>full_dir\<close> after its summary file has been decoded.\<close>

definition loaded_real :: "string ScratchRealization" where
  "loaded_real = full_real\<lparr>eclsum := Some ''/scratch/realization-7/eclipse/model/R.UNSMRY''\<rparr>"

section \<open>Properties of the numeric coercion\<close>

lemmas parse_text_defs =
  parse_number_def py_int_def py_float_def strip_def isspace_def take_sign_def digitpart_def
  isdigit_def digits_val_def mantissa_def exponent_def lower_def int_max_str_digits_def
  round_double_def floor_log2_def round_half_even_def pow2_def float_neg_def Let_def

text \<open>
  C4, as the claim states it, fails at the text \<^verbatim>\<open>"3.0"\<close>: \<^verbatim>\<open>int("3.0")\<close> raises
  \<^verbatim>\<open>ValueError\<close>, \<^verbatim>\<open>float("3.0")\<close> succeeds, and the float is returned as it is.
  The collapse of a whole float to an integer is only in the branch for float inputs.
\<close>

theorem parse_number_text_3_0_is_float:
  "parse_number (PyStr ''3.0'') = Inr (PyFloat (Finite 3)) \<and>
   parse_number (PyStr ''3.0'') \<noteq> Inr (PyInt 3)"
  by (simp add: parse_text_defs)

text \<open>
  C4 (amended): \<^verbatim>\<open>parse_number("3")\<close> is the integer 3, \<^verbatim>\<open>parse_number("3.0")\<close> is
  the real 3.0 (a text is never collapsed to an integer through the real parse),
  \<^verbatim>\<open>parse_number("3.5")\<close> is the real 3.5, \<^verbatim>\<open>parse_number("abc")\<close> is the text
  unchanged, \<^verbatim>\<open>parse_number(2.0)\<close> is the integer 2 and \<^verbatim>\<open>parse_number(5)\<close> is 5.
  For every text the integer parse is tried first, then the real parse, and the text
  itself is returned when both fail.
\<close>

theorem parse_number_examples:
  "parse_number (PyStr ''3'') = Inr (PyInt 3) \<and>
   parse_number (PyStr ''3.0'') = Inr (PyFloat (Finite 3)) \<and>
   parse_number (PyStr ''3.5'') = Inr (PyFloat (Finite (7 / 2))) \<and>
   parse_number (PyStr ''abc'') = Inr (PyStr ''abc'') \<and>
   parse_number (PyFloat (Finite 2)) = Inr (PyInt 2) \<and>
   parse_number (PyInt 5) = Inr (PyInt 5) \<and>
   parse_number (PyStr s) =
     Inr (case py_int s of
            Some i \<Rightarrow> PyInt i
          | None \<Rightarrow> (case py_float s of Some f \<Rightarrow> PyFloat f | None \<Rightarrow> PyStr s))"
proof -
  have int3: "parse_number (PyStr ''3'') = Inr (PyInt 3)"
    by (simp add: parse_text_defs)
  have real3: "parse_number (PyStr ''3.0'') = Inr (PyFloat (Finite 3))"
    by (simp add: parse_text_defs)
  have real35: "parse_number (PyStr ''3.5'') = Inr (PyFloat (Finite (7 / 2)))"
    by (simp add: parse_text_defs)
  have abc: "parse_number (PyStr ''abc'') = Inr (PyStr ''abc'')"
    by (simp add: parse_text_defs)
  have two: "parse_number (PyFloat (Finite 2)) = Inr (PyInt 2)"
    by (simp add: parse_number_def int_of_float_def)
  have five: "parse_number (PyInt 5) = Inr (PyInt 5)"
    by (simp add: parse_number_def)
  have str_rule: "parse_number (PyStr s) =
     Inr (case py_int s of
            Some i \<Rightarrow> PyInt i
          | None \<Rightarrow> (case py_float s of Some f \<Rightarrow> PyFloat f | None \<Rightarrow> PyStr s))"
    by (simp add: parse_number_def split: option.splits)
  from int3 real3 real35 abc two five str_rule show ?thesis
    by (intro conjI)
qed

text \<open>
  Where \<^verbatim>\<open>parse_number\<close> returns: on every integer, on every finite float and on every
  text. A whole finite float comes back as an integer, any other finite float unchanged.
\<close>

lemma parse_number_int: "parse_number (PyInt i) = Inr (PyInt i)"
  by (simp add: parse_number_def)

lemma parse_number_finite:
  "parse_number (PyFloat (Finite q)) =
     Inr (if q \<in> \<int> then PyInt \<lfloor>q\<rfloor> else PyFloat (Finite q))"
proof (cases "q \<in> \<int>")
  case True
  then obtain k :: int where k: "q = of_int k"
    by (auto elim: Ints_cases)
  show ?thesis
    by (simp add: k parse_number_def int_of_float_def)
next
  case False
  have "of_int \<lfloor>q\<rfloor> \<noteq> q" "of_int \<lceil>q\<rceil> \<noteq> q"
    using False Ints_of_int by metis+
  with False show ?thesis
    by (simp add: parse_number_def int_of_float_def)
qed

lemma parse_number_text_returns: "\<exists>v. parse_number (PyStr s) = Inr v"
  by (simp add: parse_number_def split: option.splits)

text \<open>
  C5: \<^verbatim>\<open>parse_number\<close> raises on the floats that are no numbers. \<^verbatim>\<open>int(value)\<close> in the
  float branch stands outside any \<^verbatim>\<open>try\<close>, so its \<^verbatim>\<open>ValueError\<close> on a NaN leaves
  the function, and so does its \<^verbatim>\<open>OverflowError\<close> on an infinity.
\<close>

theorem parse_number_nan_raises:
  "parse_number (PyFloat NaN) = Inl ValueError \<and>
   parse_number (PyFloat PosInf) = Inl OverflowError \<and>
   parse_number (PyFloat NegInf) = Inl OverflowError"
  by (simp add: parse_number_def int_of_float_def)

section \<open>Properties of the constructor\<close>

text \<open>
  The default pattern captures a run of digits, which \<^verbatim>\<open>int\<close> reads unless the run is
  longer than 4300 digits.
\<close>

lemma digitpart_tail_digits: "\<forall>c\<in>set cs. isdigit c \<Longrightarrow> digitpart_tail cs = (cs, [])"
  by (induction cs rule: digitpart_tail.induct) auto

lemma isdigit_not_isspace: "isdigit c \<Longrightarrow> \<not> isspace c"
  by (simp add: isdigit_def isspace_def Let_def)

lemma isdigit_not_sign: "isdigit c \<Longrightarrow> c \<noteq> CHR ''-'' \<and> c \<noteq> CHR ''+''"
  by (auto simp: isdigit_def)

lemma dropWhile_hd: "xs \<noteq> [] \<Longrightarrow> \<not> P (hd xs) \<Longrightarrow> dropWhile P xs = xs"
  by (cases xs) auto

lemma strip_digits:
  assumes "g \<noteq> []" and "\<forall>c\<in>set g. isdigit c"
  shows "strip g = g"
proof -
  have "\<not> isspace (hd g)"
    using assms by (simp add: isdigit_not_isspace)
  then have front: "dropWhile isspace g = g"
    using assms(1) by (rule dropWhile_hd [rotated])
  have "hd (rev g) \<in> set g"
    using assms(1) by (simp add: hd_rev)
  then have "\<not> isspace (hd (rev g))"
    using assms(2) by (simp add: isdigit_not_isspace)
  then have "dropWhile isspace (rev g) = rev g"
    using assms(1) by (intro dropWhile_hd) simp_all
  with front show ?thesis
    by (simp add: strip_def)
qed

lemma py_int_digits:
  assumes "g \<noteq> []" and "\<forall>c\<in>set g. isdigit c"
  shows "py_int g = (if length g \<le> int_max_str_digits then Some (int (digits_val g)) else None)"
proof -
  from assms obtain d ds where g: "g = d # ds" and d: "isdigit d" and ds: "\<forall>c\<in>set ds. isdigit c"
    by (cases g) auto
  have "take_sign g = (False, g)"
    using isdigit_not_sign [OF d] by (simp add: take_sign_def g)
  moreover have "digitpart g = Some (g, [])"
    using d digitpart_tail_digits [OF ds] by (simp add: digitpart_def g)
  ultimately show ?thesis
    by (simp add: py_int_def strip_digits [OF assms])
qed

lemma realization_here_digits:
  "realization_here s = Some g \<Longrightarrow> g \<noteq> [] \<and> (\<forall>c\<in>set g. isdigit c)"
  by (auto simp: realization_here_def split: if_splits list.splits dest: set_takeWhileD)

lemma realization_last_digits:
  "realization_last s = Some g \<Longrightarrow> g \<noteq> [] \<and> (\<forall>c\<in>set g. isdigit c)"
proof (induction s)
  case Nil
  then show ?case by simp
next
  case (Cons c cs)
  then show ?case
    using realization_here_digits [of "c # cs" g]
    by (auto split: if_splits option.splits)
qed

lemma default_match_index:
  assumes "default_realidxregexp s = Some m"
  shows "\<exists>g. m = [Some g] \<and>
           match_index m =
             (if length g \<le> int_max_str_digits then Inr (int (digits_val g)) else Inl ValueError)"
proof -
  from assms obtain g where g: "realization_last s = Some g" and m: "m = [Some g]"
    by (auto simp: default_realidxregexp_def split: option.splits)
  from realization_last_digits [OF g]
  have "py_int g = (if length g \<le> int_max_str_digits then Some (int (digits_val g)) else None)"
    by (intro py_int_digits) simp_all
  then show ?thesis
    by (simp add: m match_index_def)
qed

lemma default_match_isl:
  "(\<exists>m. default_realidxregexp s = Some m \<and> isl (match_index m)) \<longleftrightarrow>
     (\<exists>g. default_realidxregexp s = Some [Some g] \<and> int_max_str_digits < length g)"
proof
  assume "\<exists>m. default_realidxregexp s = Some m \<and> isl (match_index m)"
  then obtain m where m: "default_realidxregexp s = Some m" and raised: "isl (match_index m)"
    by blast
  from default_match_index [OF m] obtain g where "m = [Some g]"
    and "match_index m =
      (if length g \<le> int_max_str_digits then Inr (int (digits_val g)) else Inl ValueError)"
    by blast
  with m raised show "\<exists>g. default_realidxregexp s = Some [Some g] \<and> int_max_str_digits < length g"
    by (cases "length g \<le> int_max_str_digits") auto
next
  assume "\<exists>g. default_realidxregexp s = Some [Some g] \<and> int_max_str_digits < length g"
  then obtain g where m: "default_realidxregexp s = Some [Some g]" and long: "int_max_str_digits < length g"
    by blast
  from default_match_index [OF m] long have "isl (match_index [Some g])"
    by simp
  with m show "\<exists>m. default_realidxregexp s = Some m \<and> isl (match_index m)"
    by blast
qed

text \<open>The fields of the example world, and the definitions its evaluation unfolds.\<close>

lemma example_env_sel:
  "abspath (example_env ps) p = p"
  "path_exists (example_env ps) p = (p \<in> set ps)"
  "glob_glob (example_env ps) pat = filter (wildcard_match pat) ps"
  "read_table (example_env ps) p =
     Inr [(''A'', PyStr ''1''), (''B'', PyStr ''2.5''), (''C'', PyStr ''hello'')]"
  "EclSum (example_env ps) f = Inr f"
  "keys (example_env ps) h w =
     filter (\<lambda>k. case w of None \<Rightarrow> True | Some p \<Rightarrow> wildcard_match p k)
       [''FOPT'', ''FOPR'', ''WOPR'']"
  "has_numpy_vector (example_env ps) h = True"
  "numpy_vector (example_env ps) h k = [0, 1]"
  "get_values (example_env ps) h k = [0, 1]"
  "get_dates (example_env ps) h = [0, 1]"
  by (simp_all add: example_env_def)

lemmas example_defs =
  example_env_sel bare_dir_def full_dir_def odd_dir_def bare_real_def full_real_def new_row_def
  path_join_def startswith_slash_def endswith_slash_def

lemmas py_int_defs =
  py_int_def strip_def isspace_def take_sign_def digitpart_def isdigit_def digits_val_def
  int_max_str_digits_def

text \<open>When the constructor raises, and what it registers when it does not.\<close>

lemma init_isl:
  "isl (fst (ScratchRealization_init env path re)) \<longleftrightarrow>
     (re (abspath env path) = None \<or>
      (\<exists>m. re (abspath env path) = Some m \<and> isl (match_index m)) \<or>
      \<not> path_exists env (path_join (abspath env path) ''STATUS''))"
  by (auto simp: ScratchRealization_init_def Let_def split: option.splits sum.splits)

lemma init_status_rows:
  "fst (ScratchRealization_init env path re) = Inr r \<Longrightarrow>
     length (filter (\<lambda>f. FILETYPE f = ''STATUS'') (files r)) = 1"
  by (auto simp: ScratchRealization_init_def Let_def new_row_def
      split: option.splits sum.splits if_splits)

lemma init_full_dir:
  "ScratchRealization_init (example_env full_dir) ''/scratch/realization-7'' default_realidxregexp =
     (Inr full_real,
      [PathExists ''/scratch/realization-7/STATUS'', PathExists ''/scratch/realization-7/jobs.json'',
       PathExists ''/scratch/realization-7/parameters.txt''])"
  by (simp add: Let_def ScratchRealization_init_def default_realidxregexp_def realization_here_def
      match_index_def py_int_defs example_defs)

lemma init_bare_dir:
  "ScratchRealization_init (example_env bare_dir) ''/scratch/realization-0'' default_realidxregexp =
     (Inr bare_real,
      [PathExists ''/scratch/realization-0/STATUS'', PathExists ''/scratch/realization-0/jobs.json'',
       PathExists ''/scratch/realization-0/parameters.txt''])"
  by (simp add: Let_def ScratchRealization_init_def default_realidxregexp_def realization_here_def
      match_index_def py_int_defs example_defs)

text \<open>
  C1, as the claim states it, fails for a pattern whose group is no integer literal. With
  \<^verbatim>\<open>re.compile(r'(.*)')\<close> and the directory \<^verbatim>\<open>/scratch/run-a\<close>, which holds a status file,
  the pattern matches, and \<^verbatim>\<open>int('/scratch/run-a')\<close> raises \<^verbatim>\<open>ValueError\<close>: the
  constructor raises although the pattern matched and the status file is there.
\<close>

theorem ScratchRealization_init_unparsed_group:
  "any_line_regexp (abspath (example_env odd_dir) ''/scratch/run-a'') =
     Some [Some ''/scratch/run-a''] \<and>
   path_exists (example_env odd_dir)
     (path_join (abspath (example_env odd_dir) ''/scratch/run-a'') ''STATUS'') \<and>
   ScratchRealization_init (example_env odd_dir) ''/scratch/run-a'' any_line_regexp =
     (Inl ValueError, [])"
  by (simp add: Let_def ScratchRealization_init_def any_line_regexp_def match_index_def
      py_int_defs example_defs)

text \<open>
  C1 (amended): the constructor raises if and only if the index pattern fails to match
  the absolute path, or the match yields no integer (the pattern has no group, the group
  took no part in the match, or \<^verbatim>\<open>int\<close> does not read what it captured), or the status
  file is absent. The default pattern captures a run of digits, which \<^verbatim>\<open>int\<close> reads
  unless it is longer than 4300 digits: with it the constructor raises if and only if
  the pattern fails to match, or it captures more than 4300 digits, or the status file
  is absent. Whenever the constructor does not raise, the file registry holds exactly
  one record of type \<^verbatim>\<open>STATUS\<close>.
\<close>

theorem ScratchRealization_init_raises_iff:
  "(isl (fst (ScratchRealization_init env path re)) \<longleftrightarrow>
      (re (abspath env path) = None \<or>
       (\<exists>m. re (abspath env path) = Some m \<and> isl (match_index m)) \<or>
       \<not> path_exists env (path_join (abspath env path) ''STATUS''))) \<and>
   (isl (fst (ScratchRealization_init env path default_realidxregexp)) \<longleftrightarrow>
      (default_realidxregexp (abspath env path) = None \<or>
       (\<exists>g. default_realidxregexp (abspath env path) = Some [Some g] \<and>
          int_max_str_digits < length g) \<or>
       \<not> path_exists env (path_join (abspath env path) ''STATUS''))) \<and>
   (\<forall>r. fst (ScratchRealization_init env path re) = Inr r \<longrightarrow>
      length (filter (\<lambda>f. FILETYPE f = ''STATUS'') (files r)) = 1)"
proof (intro conjI allI impI)
  show "isl (fst (ScratchRealization_init env path re)) \<longleftrightarrow>
      (re (abspath env path) = None \<or>
       (\<exists>m. re (abspath env path) = Some m \<and> isl (match_index m)) \<or>
       \<not> path_exists env (path_join (abspath env path) ''STATUS''))"
    by (rule init_isl)
next
  show "isl (fst (ScratchRealization_init env path default_realidxregexp)) \<longleftrightarrow>
      (default_realidxregexp (abspath env path) = None \<or>
       (\<exists>g. default_realidxregexp (abspath env path) = Some [Some g] \<and>
          int_max_str_digits < length g) \<or>
       \<not> path_exists env (path_join (abspath env path) ''STATUS''))"
    unfolding init_isl default_match_isl ..
next
  fix r
  assume "fst (ScratchRealization_init env path re) = Inr r"
  then show "length (filter (\<lambda>f. FILETYPE f = ''STATUS'') (files r)) = 1"
    by (rule init_status_rows)
qed

text \<open>
  The directory \<^verbatim>\<open>/scratch/realization-7\<close> with its status file: the constructor
  returns the instance of index 7, whose registry holds one status record.
\<close>

theorem ScratchRealization_init_witness:
  "fst (ScratchRealization_init (example_env full_dir) ''/scratch/realization-7''
          default_realidxregexp) = Inr full_real \<and>
   index full_real = 7 \<and>
   length (filter (\<lambda>f. FILETYPE f = ''STATUS'') (files full_real)) = 1"
proof -
  have built: "fst (ScratchRealization_init (example_env full_dir) ''/scratch/realization-7''
          default_realidxregexp) = Inr full_real"
    by (simp add: init_full_dir)
  from ScratchRealization_init_raises_iff
    [of "example_env full_dir" "''/scratch/realization-7''" default_realidxregexp]
  have "length (filter (\<lambda>f. FILETYPE f = ''STATUS'') (files full_real)) = 1"
    using built by blast
  with built show ?thesis
    by (simp add: full_real_def)
qed

section \<open>Properties of the accessors\<close>

text \<open>With a handle cached, an accessor of the summary data makes no call at all.\<close>

lemma get_eclsum_cached_eq:
  "eclsum self = Some h \<Longrightarrow> get_eclsum env self = (Inr (Some h), self, [])"
  by (simp add: get_eclsum_def)

lemma get_smryvalues_cached_eq:
  "eclsum self = Some h \<Longrightarrow>
     get_smryvalues env self w = (Inr (smry_dataframe env h w), self, [])"
  by (simp add: get_smryvalues_def)

lemma get_parameters_frame: "fst (snd (get_parameters env self c)) = self"
  by (simp add: get_parameters_def split: list.splits sum.splits)


lemma unsmry_filename_no_decoder: "decoder_calls (snd (unsmry_filename env self)) = 0"
  by (simp add: unsmry_filename_def decoder_calls_def split: list.splits)

lemma decoder_calls_append [simp]: "decoder_calls (xs @ ys) = decoder_calls xs + decoder_calls ys"
  by (simp add: decoder_calls_def)

lemma decoder_calls_simps [simp]:
  "decoder_calls [] = 0"
  "decoder_calls (EclSumCall f # ev) = Suc (decoder_calls ev)"
  "decoder_calls (PathExists f # ev) = decoder_calls ev"
  "decoder_calls (GlobCall f # ev) = decoder_calls ev"
  "decoder_calls (ReadTableCall f # ev) = decoder_calls ev"
  "decoder_calls (LoggerWarn f # ev) = decoder_calls ev"
  by (simp_all add: decoder_calls_def)

text \<open>The four ways \<^verbatim>\<open>get_eclsum\<close> goes when nothing is cached.\<close>

lemma get_eclsum_cases:
  assumes "eclsum self = None"
  obtains
    (unresolved) e ev where "unsmry_filename env self = (Inl e, ev)"
      "get_eclsum env self = (Inl e, self, ev)"
  | (missing) f ev where "unsmry_filename env self = (Inr f, ev)" "\<not> path_exists env f"
      "get_eclsum env self = (Inr None, self, ev @ [PathExists f])"
  | (failed) f ev e where "unsmry_filename env self = (Inr f, ev)" "path_exists env f"
      "EclSum env f = Inl e" "get_eclsum env self = (Inl e, self, ev @ [PathExists f, EclSumCall f])"
  | (decoded) f ev h where "unsmry_filename env self = (Inr f, ev)" "path_exists env f"
      "EclSum env f = Inr h"
      "get_eclsum env self = (Inr (Some h), self\<lparr>eclsum := Some h\<rparr>, ev @ [PathExists f, EclSumCall f])"
proof (cases "unsmry_filename env self")
  case (Pair r ev)
  show ?thesis
  proof (cases r)
    case (Inl e)
    with Pair assms show ?thesis
      by (intro unresolved [of e ev]) (simp_all add: get_eclsum_def)
  next
    case (Inr f)
    show ?thesis
    proof (cases "path_exists env f")
      case False
      with Pair Inr assms show ?thesis
        by (intro missing [of f ev]) (simp_all add: get_eclsum_def)
    next
      case True
      show ?thesis
      proof (cases "EclSum env f")
        case (Inl e)
        with Pair Inr True assms show ?thesis
          by (intro failed [of f ev e]) (simp_all add: get_eclsum_def)
      next
        case h: (Inr h)
        with Pair Inr True assms show ?thesis
          by (intro decoded [of f ev h]) (simp_all add: get_eclsum_def)
      qed
    qed
  qed
qed

lemma get_eclsum_state:
  "fst (snd (get_eclsum env self)) = self \<or>
   (\<exists>h f. eclsum self = None \<and> EclSum env f = Inr h \<and>
      get_eclsum env self = (Inr (Some h), self\<lparr>eclsum := Some h\<rparr>,
        snd (unsmry_filename env self) @ [PathExists f, EclSumCall f]))"
proof (cases "eclsum self")
  case None
  show ?thesis
    by (rule get_eclsum_cases [OF None, of env]) (use None in auto)
next
  case (Some h)
  then show ?thesis
    by (simp add: get_eclsum_cached_eq)
qed

lemma get_eclsum_returns_handle:
  assumes "get_eclsum env self = (Inr (Some h), self', ev)"
  shows "eclsum self' = Some h \<and> decoder_calls ev \<le> 1"
proof (cases "eclsum self")
  case None
  show ?thesis
    by (rule get_eclsum_cases [OF None, of env])
       (use assms unsmry_filename_no_decoder [of env self] in auto)
next
  case (Some h')
  then show ?thesis
    using assms by (simp add: get_eclsum_cached_eq)
qed

lemma get_smryvalues_miss:
  "eclsum self = None \<Longrightarrow>
     snd (get_smryvalues env self w) = snd (get_eclsum env self)"
  by (cases "get_eclsum env self")
     (auto simp: get_smryvalues_def split: sum.splits option.splits prod.splits)



text \<open>The file name of the summary file, and what \<^verbatim>\<open>get_eclsum\<close> makes of it.\<close>

lemma unsmry_filename_registered:
  "filter (\<lambda>r. FILETYPE r = ''UNSMRY'') (files self) = [row] \<Longrightarrow>
     unsmry_filename env self = (Inr (FULLPATH row), [])"
  by (simp add: unsmry_filename_def)

lemma unsmry_filename_glob_empty:
  "length (filter (\<lambda>r. FILETYPE r = ''UNSMRY'') (files self)) \<noteq> 1 \<Longrightarrow>
   glob_glob env (unsmry_fileguess self) = [] \<Longrightarrow>
     unsmry_filename env self = (Inl IndexError, [GlobCall (unsmry_fileguess self)])"
  by (auto simp: unsmry_filename_def split: list.splits)

lemma unsmry_filename_glob_first:
  "length (filter (\<lambda>r. FILETYPE r = ''UNSMRY'') (files self)) \<noteq> 1 \<Longrightarrow>
   glob_glob env (unsmry_fileguess self) = f # fs \<Longrightarrow>
     unsmry_filename env self = (Inr f, [GlobCall (unsmry_fileguess self)])"
  by (auto simp: unsmry_filename_def split: list.splits)

lemma get_eclsum_unresolved:
  "eclsum self = None \<Longrightarrow> unsmry_filename env self = (Inl e, ev) \<Longrightarrow>
     get_eclsum env self = (Inl e, self, ev)"
  by (simp add: get_eclsum_def)

lemma get_eclsum_missing:
  "eclsum self = None \<Longrightarrow> unsmry_filename env self = (Inr f, ev) \<Longrightarrow> \<not> path_exists env f \<Longrightarrow>
     get_eclsum env self = (Inr None, self, ev @ [PathExists f])"
  by (simp add: get_eclsum_def)

lemma get_eclsum_decoded:
  "eclsum self = None \<Longrightarrow> unsmry_filename env self = (Inr f, ev) \<Longrightarrow> path_exists env f \<Longrightarrow>
   EclSum env f = Inr h \<Longrightarrow>
     get_eclsum env self =
       (Inr (Some h), self\<lparr>eclsum := Some h\<rparr>, ev @ [PathExists f, EclSumCall f])"
  by (simp add: get_eclsum_def)

lemma get_smryvalues_raises:
  "eclsum self = None \<Longrightarrow> get_eclsum env self = (Inl e, self', ev) \<Longrightarrow>
     get_smryvalues env self w = (Inl e, self', ev)"
  by (simp add: get_smryvalues_def)

lemma get_smryvalues_no_glob_result:
  assumes "eclsum self = None"
    and "length (filter (\<lambda>r. FILETYPE r = ''UNSMRY'') (files self)) \<noteq> 1"
    and "glob_glob env (unsmry_fileguess self) = []"
  shows "get_smryvalues env self w = (Inl IndexError, self, [GlobCall (unsmry_fileguess self)])"
  using assms
  by (intro get_smryvalues_raises get_eclsum_unresolved unsmry_filename_glob_empty)

lemma bare_real_sel:
  "eclsum bare_real = None"
  "filter (\<lambda>r. FILETYPE r = ''UNSMRY'') (files bare_real) = []"
  "filter (\<lambda>r. LOCALPATH r = ''parameters.txt'') (files bare_real) = []"
  "unsmry_fileguess bare_real = ''/scratch/realization-0/eclipse/model/*.UNSMRY''"
  by (simp_all add: unsmry_fileguess_def example_defs)

lemma full_real_sel:
  "eclsum full_real = None"
  "filter (\<lambda>r. FILETYPE r = ''UNSMRY'') (files full_real) = []"
  "unsmry_fileguess full_real = ''/scratch/realization-7/eclipse/model/*.UNSMRY''"
  by (simp_all add: unsmry_fileguess_def example_defs)

lemma glob_bare:
  "glob_glob (example_env bare_dir) ''/scratch/realization-0/eclipse/model/*.UNSMRY'' = []"
  by (simp add: example_defs)

lemma glob_full:
  "glob_glob (example_env full_dir) ''/scratch/realization-7/eclipse/model/*.UNSMRY'' =
     [''/scratch/realization-7/eclipse/model/R.UNSMRY'']"
  by (simp add: example_defs)

lemma glob_full_bare:
  "glob_glob (example_env bare_dir) ''/scratch/realization-7/eclipse/model/*.UNSMRY'' = []"
  by (simp add: example_defs)

text \<open>
  C2: with no summary file, \<^verbatim>\<open>get_smryvalues\<close> raises. In the directory that holds the
  status file only, the instance the constructor makes has no row of type \<^verbatim>\<open>UNSMRY\<close>,
  the glob finds nothing, and \<^verbatim>\<open>glob.glob(unsmry_fileguess)[0]\<close> raises \<^verbatim>\<open>IndexError\<close>
  before the test for the path is reached; \<^verbatim>\<open>get_smryvalues\<close> lets it pass.
\<close>

theorem get_smryvalues_no_summary_raises:
  "fst (ScratchRealization_init (example_env bare_dir) ''/scratch/realization-0''
          default_realidxregexp) = Inr bare_real \<and>
   filter (\<lambda>r. FILETYPE r = ''UNSMRY'') (files bare_real) = [] \<and>
   glob_glob (example_env bare_dir) (unsmry_fileguess bare_real) = [] \<and>
   get_smryvalues (example_env bare_dir) bare_real NoWildcard =
     (Inl IndexError, bare_real, [GlobCall ''/scratch/realization-0/eclipse/model/*.UNSMRY''])"
proof -
  have "get_smryvalues (example_env bare_dir) bare_real NoWildcard =
     (Inl IndexError, bare_real, [GlobCall (unsmry_fileguess bare_real)])"
    by (rule get_smryvalues_no_glob_result) (simp_all add: bare_real_sel glob_bare)
  then show ?thesis
    by (simp add: init_bare_dir bare_real_sel glob_bare)
qed


lemma get_eclsum_full:
  "get_eclsum (example_env full_dir) full_real =
     (Inr (Some ''/scratch/realization-7/eclipse/model/R.UNSMRY''),
      full_real\<lparr>eclsum := Some ''/scratch/realization-7/eclipse/model/R.UNSMRY''\<rparr>,
      [GlobCall ''/scratch/realization-7/eclipse/model/*.UNSMRY'',
       PathExists ''/scratch/realization-7/eclipse/model/R.UNSMRY'',
       EclSumCall ''/scratch/realization-7/eclipse/model/R.UNSMRY''])"
proof -
  have "unsmry_filename (example_env full_dir) full_real =
      (Inr ''/scratch/realization-7/eclipse/model/R.UNSMRY'', [GlobCall (unsmry_fileguess full_real)])"
    by (rule unsmry_filename_glob_first [where fs = "[]"]) (simp_all add: full_real_sel glob_full)
  then have "get_eclsum (example_env full_dir) full_real =
      (Inr (Some ''/scratch/realization-7/eclipse/model/R.UNSMRY''),
       full_real\<lparr>eclsum := Some ''/scratch/realization-7/eclipse/model/R.UNSMRY''\<rparr>,
       [GlobCall (unsmry_fileguess full_real)] @
       [PathExists ''/scratch/realization-7/eclipse/model/R.UNSMRY'',
        EclSumCall ''/scratch/realization-7/eclipse/model/R.UNSMRY''])"
    by (intro get_eclsum_decoded) (simp_all add: full_real_sel example_env_sel full_dir_def)
  then show ?thesis
    by (simp add: full_real_sel)
qed


text \<open>
  C8: when nothing is cached, \<^verbatim>\<open>get_eclsum\<close> has found a file name (the path of the one
  registered row, or the first result of the glob) and that path does not exist, it
  returns \<^verbatim>\<open>None\<close> without raising, leaves the instance as it was and does not call the
  decoder. The failure is not remembered: a later call on the instance, in a world where
  the file it finds exists and the decoder opens it, decodes the file and caches the handle.
\<close>

theorem get_eclsum_missing_path:
  assumes "eclsum self = None"
    and "unsmry_filename env self = (Inr f, ev)"
    and "\<not> path_exists env f"
  shows "get_eclsum env self = (Inr None, self, ev @ [PathExists f]) \<and>
         decoder_calls (ev @ [PathExists f]) = 0 \<and>
         (unsmry_filename env2 self = (Inr f2, ev2) \<and> path_exists env2 f2 \<and>
          EclSum env2 f2 = Inr h2 \<longrightarrow>
            get_eclsum env2 (fst (snd (get_eclsum env self))) =
              (Inr (Some h2), self\<lparr>eclsum := Some h2\<rparr>, ev2 @ [PathExists f2, EclSumCall f2]))"
proof -
  have first: "get_eclsum env self = (Inr None, self, ev @ [PathExists f])"
    using assms by (rule get_eclsum_missing)
  have "decoder_calls ev = 0"
    using unsmry_filename_no_decoder [of env self] assms(2) by simp
  then have quiet: "decoder_calls (ev @ [PathExists f]) = 0"
    by simp
  have "get_eclsum env2 (fst (snd (get_eclsum env self))) =
          (Inr (Some h2), self\<lparr>eclsum := Some h2\<rparr>, ev2 @ [PathExists f2, EclSumCall f2])"
    if "unsmry_filename env2 self = (Inr f2, ev2)" "path_exists env2 f2" "EclSum env2 f2 = Inr h2"
    using assms(1) that by (simp add: first get_eclsum_decoded)
  with first quiet show ?thesis
    by blast
qed

lemma stale_real_sel:
  "eclsum stale_real = None"
  "filter (\<lambda>r. FILETYPE r = ''UNSMRY'') (files stale_real) =
     [new_row ''eclipse/model/R.UNSMRY'' ''UNSMRY'' ''/scratch/realization-7/eclipse/model/R.UNSMRY'']"
  by (simp_all add: stale_real_def example_defs)

lemma unsmry_filename_stale:
  "unsmry_filename env stale_real = (Inr ''/scratch/realization-7/eclipse/model/R.UNSMRY'', [])"
  using unsmry_filename_registered [OF stale_real_sel(2), of env] by (simp add: new_row_def)

text \<open>
  The registered summary file is absent at the first call and present at the second.
\<close>

theorem get_eclsum_missing_path_witness:
  "get_eclsum (example_env bare_dir) stale_real =
     (Inr None, stale_real, [PathExists ''/scratch/realization-7/eclipse/model/R.UNSMRY'']) \<and>
   get_eclsum (example_env full_dir) (fst (snd (get_eclsum (example_env bare_dir) stale_real))) =
     (Inr (Some ''/scratch/realization-7/eclipse/model/R.UNSMRY''),
      stale_real\<lparr>eclsum := Some ''/scratch/realization-7/eclipse/model/R.UNSMRY''\<rparr>,
      [PathExists ''/scratch/realization-7/eclipse/model/R.UNSMRY'',
       EclSumCall ''/scratch/realization-7/eclipse/model/R.UNSMRY''])"
proof -
  have absent: "\<not> path_exists (example_env bare_dir) ''/scratch/realization-7/eclipse/model/R.UNSMRY''"
    by (simp add: example_defs)
  have present: "path_exists (example_env full_dir) ''/scratch/realization-7/eclipse/model/R.UNSMRY''"
    by (simp add: example_defs)
  have opened: "EclSum (example_env full_dir) ''/scratch/realization-7/eclipse/model/R.UNSMRY'' =
      Inr ''/scratch/realization-7/eclipse/model/R.UNSMRY''"
    by (simp add: example_env_sel)
  note at_stale = get_eclsum_missing_path [OF stale_real_sel(1) unsmry_filename_stale absent,
      where ?env2.0 = "example_env full_dir" and ?ev2.0 = "[]"
        and ?f2.0 = "''/scratch/realization-7/eclipse/model/R.UNSMRY''"
        and ?h2.0 = "''/scratch/realization-7/eclipse/model/R.UNSMRY''"]
  from at_stale [unfolded append_Nil] unsmry_filename_stale [of "example_env full_dir"] present opened
  show ?thesis
    by blast
qed

text \<open>What the accessors leave of the instance.\<close>

lemma get_smryvalues_state:
  "fst (snd (get_smryvalues env self w)) = fst (snd (get_eclsum env self))"
proof (cases "eclsum self")
  case None
  then show ?thesis
    by (simp add: get_smryvalues_miss)
next
  case (Some h)
  then show ?thesis
    by (simp add: get_smryvalues_cached_eq get_eclsum_cached_eq)
qed

lemma get_eclsum_frame:
  "fst (snd (get_eclsum env self)) = self \<or>
   (\<exists>h f. eclsum self = None \<and> EclSum env f = Inr h \<and>
      fst (get_eclsum env self) = Inr (Some h) \<and>
      fst (snd (get_eclsum env self)) = self\<lparr>eclsum := Some h\<rparr>)"
  using get_eclsum_state [of env self] by auto

lemma do_call_files: "files (fst (do_call env c self)) = files self"
proof (cases c)
  case Call_get_eclsum
  then show ?thesis
    using get_eclsum_frame [of env self] by (auto simp: do_call_def)
next
  case (Call_get_smryvalues w)
  then show ?thesis
    using get_eclsum_frame [of env self] by (auto simp: do_call_def get_smryvalues_state)
next
  case (Call_get_parameters b)
  then show ?thesis
    by (simp add: do_call_def get_parameters_frame)
qed

lemma run_Cons_fst: "fst (run ((env, c) # cs) self) = fst (run cs (fst (do_call env c self)))"
  by (simp split: prod.splits)

lemma run_files: "files (fst (run cs self)) = files self"
proof (induction cs arbitrary: self)
  case Nil
  then show ?case by simp
next
  case (Cons a cs)
  obtain env c where a: "a = (env, c)" by (cases a)
  show ?case
    using Cons.IH [of "fst (do_call env c self)"] do_call_files [of env c self]
    by (simp only: a run_Cons_fst)
qed

text \<open>
  C10 (amended): \<^verbatim>\<open>get_parameters\<close> leaves the instance as it was. \<^verbatim>\<open>get_eclsum\<close> leaves
  it as it was, or, when nothing was cached and the decoder opened a file, sets the
  summary cache to the handle it returns and changes nothing else. \<^verbatim>\<open>get_smryvalues\<close>
  leaves the instance as \<^verbatim>\<open>get_eclsum\<close> would: it fills the cache on a successful decode.
  No accessor, and no run of accessor calls, changes the file registry.
\<close>

theorem accessors_frame:
  "fst (snd (get_parameters env self c)) = self \<and>
   (fst (snd (get_eclsum env self)) = self \<or>
    (\<exists>h f. eclsum self = None \<and> EclSum env f = Inr h \<and>
       fst (get_eclsum env self) = Inr (Some h) \<and>
       fst (snd (get_eclsum env self)) = self\<lparr>eclsum := Some h\<rparr>)) \<and>
   fst (snd (get_smryvalues env self w)) = fst (snd (get_eclsum env self)) \<and>
   files (fst (snd (get_eclsum env self))) = files self \<and>
   files (fst (snd (get_smryvalues env self w))) = files self \<and>
   files (fst (run cs self)) = files self"
proof -
  have "files (fst (snd (get_eclsum env self))) = files self"
    using get_eclsum_frame [of env self] by auto
  then show ?thesis
    using get_eclsum_frame [of env self]
    by (simp add: get_parameters_frame get_smryvalues_state run_files)
qed

text \<open>
  C10, as the claim states it, fails for \<^verbatim>\<open>get_smryvalues\<close>: on the instance of the
  directory with a summary file, whose cache is empty, the call decodes the file and
  leaves the handle in the cache.
\<close>

theorem get_smryvalues_fills_cache:
  "eclsum full_real = None \<and>
   eclsum (fst (snd (get_smryvalues (example_env full_dir) full_real NoWildcard))) =
     Some ''/scratch/realization-7/eclipse/model/R.UNSMRY'' \<and>
   fst (snd (get_smryvalues (example_env full_dir) full_real NoWildcard)) \<noteq> full_real"
proof -
  have "fst (snd (get_smryvalues (example_env full_dir) full_real NoWildcard)) =
      full_real\<lparr>eclsum := Some ''/scratch/realization-7/eclipse/model/R.UNSMRY''\<rparr>"
    by (simp add: get_smryvalues_state get_eclsum_full)
  then show ?thesis
    by (simp add: full_real_def)
qed

text \<open>The vector names that the loop of \<^verbatim>\<open>get_smryvalues\<close> collects.\<close>

lemma fold_union_keys:
  "fold (\<lambda>prop props. props \<union> set (keys env h prop)) ps acc =
     acc \<union> (\<Union>p\<in>set ps. set (keys env h p))"
  by (induction ps arbitrary: acc) auto

lemma smry_props_union: "smry_props env h ps = (\<Union>p\<in>set ps. set (keys env h p))"
  by (simp add: smry_props_def fold_union_keys)

lemma dom_smry_dataframe:
  "dom (df_data (smry_dataframe env h w)) = (\<Union>p\<in>set (wildcard_list w). set (keys env h p))"
  by (auto simp: smry_dataframe_def Let_def smry_props_union dom_def split: if_splits)

text \<open>
  C6: with a handle cached, \<^verbatim>\<open>get_smryvalues\<close> returns a table, changes nothing and makes
  no call to the world. The columns of the table are the union of the vector names the
  decoder gives for each pattern of a list of patterns, the names it gives for the one
  pattern when the argument is a string, and all names of the decoder when there is no
  pattern (\<^verbatim>\<open>None\<close>, an empty string or an empty list). The index of the table is the list
  of report dates, and each column is the vector the decoder returns for its name.
\<close>

theorem get_smryvalues_columns:
  assumes "eclsum self = Some h"
  shows "get_smryvalues env self w = (Inr (smry_dataframe env h w), self, []) \<and>
         dom (df_data (smry_dataframe env h (Wildcards (p # ps)))) =
           (\<Union>q\<in>set (p # ps). set (keys env h (Some q))) \<and>
         dom (df_data (smry_dataframe env h (OneWildcard (c # cs)))) = set (keys env h (Some (c # cs))) \<and>
         dom (df_data (smry_dataframe env h NoWildcard)) = set (keys env h None) \<and>
         dom (df_data (smry_dataframe env h (OneWildcard []))) = set (keys env h None) \<and>
         dom (df_data (smry_dataframe env h (Wildcards []))) = set (keys env h None) \<and>
         df_index (smry_dataframe env h w) = get_dates env h \<and>
         (\<forall>k\<in>dom (df_data (smry_dataframe env h w)).
            df_data (smry_dataframe env h w) k =
              Some (if has_numpy_vector env h then numpy_vector env h k else get_values env h k))"
proof -
  have "get_smryvalues env self w = (Inr (smry_dataframe env h w), self, [])"
    using assms by (rule get_smryvalues_cached_eq)
  moreover have "df_index (smry_dataframe env h w) = get_dates env h"
    by (simp add: smry_dataframe_def Let_def)
  moreover have "\<forall>k\<in>dom (df_data (smry_dataframe env h w)).
            df_data (smry_dataframe env h w) k =
              Some (if has_numpy_vector env h then numpy_vector env h k else get_values env h k)"
    by (auto simp: smry_dataframe_def Let_def split: if_splits)
  ultimately show ?thesis
    by (simp add: dom_smry_dataframe wildcard_list_def)
qed

lemma keys_FO:
  "keys (example_env ps) h (Some ''FO*'') = [''FOPT'', ''FOPR'']"
  by (simp add: example_env_sel)

text \<open>
  A decoder with the vectors \<^verbatim>\<open>FOPT\<close>, \<^verbatim>\<open>FOPR\<close> and \<^verbatim>\<open>WOPR\<close>: the pattern \<^verbatim>\<open>FO*\<close>
  gives the columns \<^verbatim>\<open>FOPT\<close> and \<^verbatim>\<open>FOPR\<close> only.
\<close>

theorem get_smryvalues_columns_witness:
  "eclsum loaded_real = Some ''/scratch/realization-7/eclipse/model/R.UNSMRY'' \<and>
   set (keys (example_env full_dir) ''/scratch/realization-7/eclipse/model/R.UNSMRY'' None) =
     {''FOPT'', ''FOPR'', ''WOPR''} \<and>
   fst (get_smryvalues (example_env full_dir) loaded_real (OneWildcard ''FO*'')) =
     Inr (smry_dataframe (example_env full_dir) ''/scratch/realization-7/eclipse/model/R.UNSMRY''
            (OneWildcard ''FO*'')) \<and>
   dom (df_data (smry_dataframe (example_env full_dir)
      ''/scratch/realization-7/eclipse/model/R.UNSMRY'' (OneWildcard ''FO*''))) = {''FOPT'', ''FOPR''} \<and>
   df_index (smry_dataframe (example_env full_dir)
      ''/scratch/realization-7/eclipse/model/R.UNSMRY'' (OneWildcard ''FO*'')) = [0, 1]"
proof -
  have cached: "eclsum loaded_real = Some ''/scratch/realization-7/eclipse/model/R.UNSMRY''"
    by (simp add: loaded_real_def)
  have all_keys: "set (keys (example_env full_dir) ''/scratch/realization-7/eclipse/model/R.UNSMRY'' None) =
     {''FOPT'', ''FOPR'', ''WOPR''}"
    by (simp add: example_env_sel)
  from get_smryvalues_columns [OF cached, of "example_env full_dir" "OneWildcard ''FO*''"
      _ _ "CHR ''F''" "''O*''"]
  show ?thesis
    using cached all_keys by (simp add: keys_FO example_env_sel)
qed

text \<open>
  The call that loads the handle itself: when nothing is cached and \<^verbatim>\<open>get_eclsum\<close>
  decodes the file, \<^verbatim>\<open>get_smryvalues\<close> returns the table of the new handle; when
  \<^verbatim>\<open>get_eclsum\<close> returns \<^verbatim>\<open>None\<close>, it returns the empty dataframe.
\<close>

lemma get_smryvalues_after_decode:
  assumes "eclsum self = None" and "get_eclsum env self = (Inr (Some h), self', ev)"
  shows "get_smryvalues env self w = (Inr (smry_dataframe env h w), self', ev)"
proof -
  from get_eclsum_returns_handle [OF assms(2)] have "eclsum self' = Some h"
    by simp
  with assms show ?thesis
    by (simp add: get_smryvalues_def)
qed

lemma get_smryvalues_no_handle:
  assumes "eclsum self = None" and "get_eclsum env self = (Inr None, self', ev)"
  shows "get_smryvalues env self w = (Inr DataFrame_empty, self, ev) \<and> self' = self"
proof -
  have "self' = self"
    by (rule get_eclsum_cases [OF assms(1), of env]) (use assms(2) in auto)
  with assms show ?thesis
    by (simp add: get_smryvalues_def)
qed

section \<open>Properties of \<^verbatim>\<open>get_parameters\<close>\<close>

text \<open>
  C7, as the claim states it, fails: the module has no error of its own for a missing
  parameters file. On the instance of the directory that holds the status file only,
  \<^verbatim>\<open>paramfile.FULLPATH.values[0]\<close> indexes an empty array, and the call raises
  \<^verbatim>\<open>IndexError\<close>.
\<close>

theorem get_parameters_unregistered_is_IndexError:
  "filter (\<lambda>r. LOCALPATH r = ''parameters.txt'') (files bare_real) = [] \<and>
   get_parameters (example_env bare_dir) bare_real True = (Inl IndexError, bare_real, [])"
  by (simp add: get_parameters_def bare_real_sel)

text \<open>
  C7 (amended): on every instance whose file registry has no row with the local path
  \<^verbatim>\<open>parameters.txt\<close>, \<^verbatim>\<open>get_parameters\<close> raises \<^verbatim>\<open>IndexError\<close>, whatever
  \<^verbatim>\<open>convert_numeric\<close> is; it reads no file and leaves the instance as it was.
\<close>

theorem get_parameters_unregistered:
  assumes "filter (\<lambda>r. LOCALPATH r = ''parameters.txt'') (files self) = []"
  shows "get_parameters env self convert_numeric = (Inl IndexError, self, [])"
  using assms by (simp add: get_parameters_def)

text \<open>The same instance, without conversion, in a world that has a parameters file elsewhere.\<close>

theorem get_parameters_unregistered_witness:
  "fst (get_parameters (example_env full_dir) bare_real False) = Inl IndexError \<and>
   snd (get_parameters (example_env full_dir) bare_real False) = (bare_real, [])"
  using get_parameters_unregistered [OF bare_real_sel(3), of "example_env full_dir" False]
  by simp

text \<open>
  With the file registered, the lines \<^verbatim>\<open>A 1\<close>, \<^verbatim>\<open>B 2.5\<close> and \<^verbatim>\<open>C hello\<close> come back as
  an integer, a real and a text.
\<close>

lemma get_parameters_full:
  "fst (get_parameters (example_env full_dir) full_real True) =
     Inr [(''A'', PyInt 1), (''B'', PyFloat (Finite (5 / 2))), (''C'', PyStr ''hello'')]"
proof -
  have "convert_params [(''A'', PyStr ''1''), (''B'', PyStr ''2.5''), (''C'', PyStr ''hello'')] =
      Inr [(''A'', PyInt 1), (''B'', PyFloat (Finite (5 / 2))), (''C'', PyStr ''hello'')]"
    by (simp add: parse_text_defs)
  then show ?thesis
    by (simp add: get_parameters_def example_defs)
qed

section \<open>Properties of \<^verbatim>\<open>VirtualRealization\<close>\<close>

lemma VirtualRealization_init_eq:
  "VirtualRealization_init path description =
     ([''_description'' \<mapsto> PyStr (case description of None \<Rightarrow> [] | Some d \<Rightarrow> d)], [])"
  by (simp add: VirtualRealization_init_def Let_def split: option.splits)

text \<open>
  C9, as the claim states it, fails: a virtual realization has no parameter mapping, be it
  empty or not. Constructed with a description only, the instance has the one attribute
  \<^verbatim>\<open>_description\<close>, and reading \<^verbatim>\<open>parameters\<close> raises \<^verbatim>\<open>AttributeError\<close>.
\<close>

theorem VirtualRealization_no_parameters:
  "dom (fst (VirtualRealization_init None (Some ''archived''))) = {''_description''} \<and>
   getattr (fst (VirtualRealization_init None (Some ''archived''))) ''parameters'' = Inl AttributeError"
  by (simp add: VirtualRealization_init_eq getattr_def)

text \<open>
  C9 (amended): the constructor of a virtual realization makes no call to the world (no
  file is read), and the class has no other method. The instance has exactly one
  attribute, \<^verbatim>\<open>_description\<close>: the description given, or the empty text when none is
  given. Any other attribute, a parameter mapping among them, is absent.
\<close>

theorem VirtualRealization_init_description:
  "snd (VirtualRealization_init path description) = [] \<and>
   dom (fst (VirtualRealization_init path description)) = {''_description''} \<and>
   getattr (fst (VirtualRealization_init path description)) name =
     (if name = ''_description''
      then Inr (PyStr (case description of None \<Rightarrow> [] | Some d \<Rightarrow> d))
      else Inl AttributeError) \<and>
   getattr (fst (VirtualRealization_init path None)) ''_description'' = Inr (PyStr [])"
  by (simp add: VirtualRealization_init_eq getattr_def)

end
